theory Spec2Isabelle
  imports Main "HOL-Library.AList"
begin

section \<open>Python values\<close>

text \<open>
  The token dictionaries, the request payloads and the response bodies of the program are
  JSON-shaped Python values. A \<^verbatim>\<open>dict\<close> is an association list in insertion order:
  \<^verbatim>\<open>d[k] = v\<close> is \<^const>\<open>AList.update\<close> (an existing key keeps its place, a new
  one goes last) and \<^verbatim>\<open>d.get(k)\<close> is \<^const>\<open>map_of\<close>. Floats are left out.
\<close>

datatype pyval =
    PNone
  | PBool bool
  | PInt int
  | PStr string
  | PList "pyval list"
  | PDict "(string \<times> pyval) list"

type_synonym pydict = "(string \<times> pyval) list"

type_synonym bytes = "char list"

text \<open>Python's truth value of an object, as \<^verbatim>\<open>if x:\<close> and \<^verbatim>\<open>not x\<close> test it.\<close>

fun truthy :: "pyval \<Rightarrow> bool" where
  "truthy PNone = False"
| "truthy (PBool b) = b"
| "truthy (PInt i) = (i \<noteq> 0)"
| "truthy (PStr s) = (s \<noteq> [])"
| "truthy (PList xs) = (xs \<noteq> [])"
| "truthy (PDict kvs) = (kvs \<noteq> [])"

text \<open>The exceptions the modelled code raises or lets through, each with its message.\<close>

datatype error =
    TokenExpiredError string
  | RateLimitError string
  | GraphAPIError string
  | ValueError string
  | TypeError string
  | AttributeError string
  | OverflowError string
  | JSONDecodeError string
  | TransportError string

section \<open>Python builtins used by the modelled code\<close>

text \<open>
  \<^verbatim>\<open>str(i)\<close> of an integer: its decimal digits, after a minus sign when negative.
  (The integers the modelled code prints are status codes, retry counts and numbers that
  \<^verbatim>\<open>int()\<close> or the JSON parser accepted, all within the 4300 digits Python prints.)
\<close>

definition digit_char :: "int \<Rightarrow> char" where
  "digit_char n = ''0123456789'' ! nat n"

function digits_of :: "int \<Rightarrow> string" where
  "digits_of n = (if n < 10 then [digit_char n] else digits_of (n div 10) @ [digit_char (n mod 10)])"
  by pat_completeness auto
termination
  by (relation "measure nat") auto

declare digits_of.simps [simp del]

definition str_int :: "int \<Rightarrow> string" where
  "str_int i = (if i < 0 then CHR ''-'' # digits_of (- i) else digits_of i)"

text \<open>
  \<^verbatim>\<open>repr\<close> of a string, on ASCII: in single quotes, or in double quotes when it holds
  a single quote and no double quote; backslash, the quote, tab, newline and return are
  escaped, other control characters are written \<^verbatim>\<open>\xNN\<close>.
\<close>

definition hex_digit :: "nat \<Rightarrow> char" where
  "hex_digit n = ''0123456789abcdef'' ! n"

definition repr_char :: "char \<Rightarrow> char \<Rightarrow> string" where
  "repr_char q c =
     (if c = CHR 0x5C then [CHR 0x5C, CHR 0x5C]
      else if c = q then [CHR 0x5C, q]
      else if c = CHR 0x09 then [CHR 0x5C, CHR ''t'']
      else if c = CHR 0x0A then [CHR 0x5C, CHR ''n'']
      else if c = CHR 0x0D then [CHR 0x5C, CHR ''r'']
      else if (of_char c :: nat) < 32 \<or> (of_char c :: nat) = 127
        then [CHR 0x5C, CHR ''x'', hex_digit (of_char c div 16), hex_digit (of_char c mod 16)]
      else [c])"

definition repr_str :: "string \<Rightarrow> string" where
  "repr_str s =
     (let q = (if CHR 0x27 \<in> set s \<and> CHR 0x22 \<notin> set s then CHR 0x22 else CHR 0x27)
      in q # concat (map (repr_char q) s) @ [q])"

fun join :: "string \<Rightarrow> string list \<Rightarrow> string" where
  "join sep [] = []"
| "join sep [x] = x"
| "join sep (x # y # ys) = x @ sep @ join sep (y # ys)"

fun py_repr :: "pyval \<Rightarrow> string" where
  "py_repr PNone = ''None''"
| "py_repr (PBool b) = (if b then ''True'' else ''False'')"
| "py_repr (PInt i) = str_int i"
| "py_repr (PStr s) = repr_str s"
| "py_repr (PList xs) = ''['' @ join '', '' (map py_repr xs) @ '']''"
| "py_repr (PDict kvs) =
     ''{'' @ join '', '' (map (\<lambda>kv. repr_str (fst kv) @ '': '' @ py_repr (snd kv)) kvs) @ ''}''"

text \<open>\<^verbatim>\<open>str(v)\<close>, which an f-string applies to the value it formats.\<close>

definition py_str :: "pyval \<Rightarrow> string" where
  "py_str v = (case v of PStr s \<Rightarrow> s | _ \<Rightarrow> py_repr v)"

text \<open>
  \<^verbatim>\<open>int(s)\<close> of a string, on ASCII: surrounding whitespace is dropped, a sign may lead,
  and the digits may be grouped by single underscores; anything else is a
  \<^verbatim>\<open>ValueError\<close>, and so is (from Python 3.11 on) a numeral of more than 4300 digits.
\<close>

definition is_space :: "char \<Rightarrow> bool" where
  "is_space c \<longleftrightarrow> c \<in> set [CHR '' '', CHR 0x09, CHR 0x0A, CHR 0x0B, CHR 0x0C, CHR 0x0D,
                             CHR 0x1C, CHR 0x1D, CHR 0x1E, CHR 0x1F]"

definition strip :: "string \<Rightarrow> string" where
  "strip s = rev (dropWhile is_space (rev (dropWhile is_space s)))"

definition digit_val :: "char \<Rightarrow> int option" where
  "digit_val c =
     (if (48::int) \<le> of_char c \<and> of_char c \<le> (57::int) then Some (of_char c - 48) else None)"

fun parse_digits :: "int \<Rightarrow> bool \<Rightarrow> string \<Rightarrow> int option" where
  "parse_digits acc prev [] = (if prev then Some acc else None)"
| "parse_digits acc prev (c # cs) =
     (if c = CHR ''_'' then (if prev \<and> cs \<noteq> [] then parse_digits acc False cs else None)
      else (case digit_val c of
              None \<Rightarrow> None
            | Some d \<Rightarrow> parse_digits (10 * acc + d) True cs))"

definition digit_count :: "string \<Rightarrow> nat" where
  "digit_count s = length (filter (\<lambda>c. digit_val c \<noteq> None) s)"

definition py_int :: "string \<Rightarrow> error + int" where
  "py_int s =
     (let parsed =
            (case strip s of
               [] \<Rightarrow> None
             | c # cs \<Rightarrow>
                 if c = CHR ''-'' then map_option uminus (parse_digits 0 False cs)
                 else if c = CHR ''+'' then parse_digits 0 False cs
                 else parse_digits 0 False (c # cs))
      in case parsed of
           None \<Rightarrow> Inl (ValueError (''invalid literal for int() with base 10: '' @ repr_str s))
         | Some n \<Rightarrow>
             if digit_count s > 4300
             then Inl (ValueError (''Exceeds the limit (4300 digits) for integer string conversion: ''
                         @ ''value has '' @ str_int (int (digit_count s)) @ '' digits; ''
                         @ ''use sys.set_int_max_str_digits() to increase the limit''))
             else Inr n)"

text \<open>\<^verbatim>\<open>type(v).__name__\<close>, as error messages quote it.\<close>

fun type_name :: "pyval \<Rightarrow> string" where
  "type_name PNone = ''NoneType''"
| "type_name (PBool b) = ''bool''"
| "type_name (PInt i) = ''int''"
| "type_name (PStr s) = ''str''"
| "type_name (PList xs) = ''list''"
| "type_name (PDict kvs) = ''dict''"

section \<open>token\_storage.py\<close>

text \<open>
  The libraries \<^verbatim>\<open>TokenStorage\<close> calls are parameters of the model:
  \<^item> \<open>encrypt\<close>, \<open>decrypt\<close>: \<^verbatim>\<open>Fernet.encrypt\<close> (which draws an IV and reads the clock:
    the first argument stands for both) and \<^verbatim>\<open>Fernet.decrypt\<close> (\<open>None\<close> when it raises);
  \<^item> \<open>dumps\<close>, \<open>loads\<close>: \<^verbatim>\<open>json.dumps(v).encode()\<close> and \<^verbatim>\<open>json.loads(b.decode())\<close>
    (\<open>None\<close> when decoding or parsing raises);
  \<^item> \<open>isoformat\<close>, \<open>fromisoformat\<close>: \<^verbatim>\<open>datetime.isoformat\<close> and
    \<^verbatim>\<open>datetime.fromisoformat\<close> (\<open>None\<close> when it raises \<^verbatim>\<open>ValueError\<close>).
  A \<^verbatim>\<open>datetime\<close> of this module is only stamped, shifted and compared, so it is its
  position on the time line: the number of microseconds since \<^verbatim>\<open>datetime.min\<close>
  (0001-01-01T00:00:00).
\<close>

type_synonym instant = int

record libs =
  encrypt :: "nat \<Rightarrow> bytes \<Rightarrow> bytes"
  decrypt :: "bytes \<Rightarrow> bytes option"
  dumps :: "pyval \<Rightarrow> bytes"
  loads :: "bytes \<Rightarrow> pyval option"
  isoformat :: "instant \<Rightarrow> string"
  fromisoformat :: "string \<Rightarrow> instant option"

text \<open>
  \<^verbatim>\<open>self._tokens\<close> and \<^verbatim>\<open>self._verifiers\<close>. Dictionaries the callers hold are
  objects of a heap, named by their address, since \<^verbatim>\<open>store_tokens\<close> writes into the
  dictionary it is handed.
\<close>

record token_storage =
  s_tokens :: "string \<rightharpoonup> bytes"
  s_verifiers :: "string \<rightharpoonup> string"

type_synonym heap = "nat \<Rightarrow> pydict"

definition init_storage :: token_storage where
  "init_storage = \<lparr>s_tokens = Map.empty, s_verifiers = Map.empty\<rparr>"

definition store_code_verifier :: "string \<Rightarrow> string \<Rightarrow> token_storage \<Rightarrow> token_storage" where
  "store_code_verifier state code_verifier st =
     st\<lparr>s_verifiers := (s_verifiers st)(state \<mapsto> code_verifier)\<rparr>"

text \<open>\<^verbatim>\<open>self._verifiers.pop(state, None)\<close>: the value and the dictionary without the key.\<close>

definition get_code_verifier :: "string \<Rightarrow> token_storage \<Rightarrow> string option \<times> token_storage" where
  "get_code_verifier state st =
     (s_verifiers st state, st\<lparr>s_verifiers := (s_verifiers st)(state := None)\<rparr>)"

definition store_tokens ::
  "libs \<Rightarrow> instant \<Rightarrow> nat \<Rightarrow> string \<Rightarrow> nat \<Rightarrow> heap \<times> token_storage \<Rightarrow> heap \<times> token_storage" where
  "store_tokens L now iv user_id tokens hs =
     (case hs of (h, st) \<Rightarrow>
        let h' = h(tokens := AList.update ''stored_at'' (PStr (isoformat L now)) (h tokens));
            token_json = dumps L (PDict (h' tokens));
            encrypted = encrypt L iv token_json
        in (h', st\<lparr>s_tokens := (s_tokens st)(user_id \<mapsto> encrypted)\<rparr>))"

text \<open>
  \<^verbatim>\<open>get_tokens\<close> returns a Python value, \<^const>\<open>PNone\<close> for \<^verbatim>\<open>None\<close>. The
  \<^verbatim>\<open>except Exception\<close> branch is taken when decrypting or parsing raises.
\<close>

definition get_tokens :: "libs \<Rightarrow> string \<Rightarrow> token_storage \<Rightarrow> pyval \<times> token_storage" where
  "get_tokens L user_id st =
     (case s_tokens st user_id of
        None \<Rightarrow> (PNone, st)
      | Some encrypted \<Rightarrow>
          if encrypted = [] then (PNone, st)
          else (case decrypt L encrypted of
                  None \<Rightarrow> (PNone, st\<lparr>s_tokens := (s_tokens st)(user_id := None)\<rparr>)
                | Some decrypted \<Rightarrow>
                    (case loads L decrypted of
                       None \<Rightarrow> (PNone, st\<lparr>s_tokens := (s_tokens st)(user_id := None)\<rparr>)
                     | Some tokens \<Rightarrow> (tokens, st))))"

definition delete_tokens :: "string \<Rightarrow> token_storage \<Rightarrow> bool \<times> token_storage" where
  "delete_tokens user_id st =
     (if user_id \<in> dom (s_tokens st)
      then (True, st\<lparr>s_tokens := (s_tokens st)(user_id := None)\<rparr>)
      else (False, st))"

text \<open>
  The range of \<^verbatim>\<open>datetime\<close> (years 1 to 9999) and of \<^verbatim>\<open>timedelta\<close> (fewer than
  \<open>10\<^sup>9\<close> days either way), in microseconds: arithmetic that leaves them raises
  \<^verbatim>\<open>OverflowError\<close>.
\<close>

definition datetime_max :: instant where
  "datetime_max = 3652059 * 86400 * 1000000 - 1"

definition timedelta_seconds :: "pyval \<Rightarrow> error + int" where
  "timedelta_seconds v =
     (case v of
        PInt d \<Rightarrow>
          if - 999999999 \<le> d div 86400 \<and> d div 86400 \<le> 999999999 then Inr (d * 1000000)
          else Inl (OverflowError (''days='' @ str_int (d div 86400)
                      @ ''; must have magnitude <= 999999999''))
      | PBool b \<Rightarrow> Inr (if b then 1000000 else 0)
      | _ \<Rightarrow> Inl (TypeError (''unsupported type for timedelta seconds component: ''
                         @ type_name v)))"

definition datetime_add :: "instant \<Rightarrow> int \<Rightarrow> error + instant" where
  "datetime_add t delta =
     (if 0 \<le> t + delta \<and> t + delta \<le> datetime_max then Inr (t + delta)
      else Inl (OverflowError ''date value out of range''))"

text \<open>\<^verbatim>\<open>tokens.get(key, default)\<close> on the value \<^verbatim>\<open>get_tokens\<close> returned.\<close>

definition dict_get :: "pyval \<Rightarrow> string \<Rightarrow> pyval \<Rightarrow> error + pyval" where
  "dict_get v key dflt =
     (case v of
        PDict kvs \<Rightarrow> Inr (case map_of kvs key of None \<Rightarrow> dflt | Some x \<Rightarrow> x)
      | _ \<Rightarrow> Inl (AttributeError ([CHR 0x27] @ type_name v @ [CHR 0x27]
                              @ '' object has no attribute '' @ [CHR 0x27] @ ''get'' @ [CHR 0x27])))"

definition is_token_expired ::
  "libs \<Rightarrow> instant \<Rightarrow> string \<Rightarrow> token_storage \<Rightarrow> (error + bool) \<times> token_storage" where
  "is_token_expired L now user_id st =
     (case get_tokens L user_id st of (tokens, st') \<Rightarrow>
        if \<not> truthy tokens then (Inr True, st')
        else
          (case dict_get tokens ''stored_at'' (PStr '''') of
             Inl e \<Rightarrow> (Inl e, st')
           | Inr (PStr s) \<Rightarrow>
               (case fromisoformat L s of
                  None \<Rightarrow> (Inl (ValueError (''Invalid isoformat string: '' @ repr_str s)), st')
                | Some stored_at \<Rightarrow>
                    (case dict_get tokens ''expires_in'' (PInt 0) of
                       Inl e \<Rightarrow> (Inl e, st')
                     | Inr expires_in \<Rightarrow>
                         (case timedelta_seconds expires_in of
                            Inl e \<Rightarrow> (Inl e, st')
                          | Inr delta \<Rightarrow>
                              (case datetime_add stored_at delta of
                                 Inl e \<Rightarrow> (Inl e, st')
                               | Inr expiry_time \<Rightarrow> (Inr (now \<ge> expiry_time), st')))))
           | Inr _ \<Rightarrow> (Inl (TypeError ''fromisoformat: argument must be str''), st')))"

section \<open>graph\_client.py\<close>

datatype EmailImportance = LOW | NORMAL | HIGH

fun importance_value :: "EmailImportance \<Rightarrow> string" where
  "importance_value LOW = ''low''"
| "importance_value NORMAL = ''normal''"
| "importance_value HIGH = ''high''"

text \<open>
  What \<^verbatim>\<open>client.request\<close> is called with, and what it answers. \<open>json_body\<close> is the
  value of \<^verbatim>\<open>response.json()\<close>, \<open>None\<close> when that call raises; \<open>resp_headers\<close> is
  \<^verbatim>\<open>response.headers.get\<close>.
\<close>

record request =
  rq_method :: string
  rq_url :: string
  rq_headers :: "(string \<times> string) list"
  rq_json :: "pyval option"
  rq_params :: "pyval option"

record response =
  status_code :: int
  resp_headers :: "string \<rightharpoonup> string"
  body_text :: string
  json_body :: "pyval option"

text \<open>
  One call of \<^verbatim>\<open>client.request\<close> returns a response or raises: a
  \<^verbatim>\<open>httpx.TimeoutException\<close>, a \<^verbatim>\<open>httpx.NetworkError\<close> (both caught by
  \<^verbatim>\<open>_make_request\<close>), or something else, which is let through.
\<close>

datatype outcome =
    Response response
  | TimeoutException string
  | NetworkError string
  | OtherException string

text \<open>
  The world outside: the calls of \<^verbatim>\<open>client.request\<close> made so far and the delays
  \<^verbatim>\<open>time.sleep\<close> was called with, oldest first. The server is a function from the
  number of calls already made to the outcome of the next one. Logging is left out.
\<close>

record world =
  requests :: "request list"
  sleeps :: "int list"

type_synonym server = "nat \<Rightarrow> outcome"

record client =
  access_token :: string
  headers :: "(string \<times> string) list"

definition BASE_URL :: string where
  "BASE_URL = ''https://graph.microsoft.com/v1.0''"

definition MAX_RETRIES :: nat where
  "MAX_RETRIES = 3"

definition INITIAL_RETRY_DELAY :: int where
  "INITIAL_RETRY_DELAY = 1"

definition GraphClient :: "string \<Rightarrow> client" where
  "GraphClient token =
     \<lparr>access_token = token,
      headers = [(''Authorization'', ''Bearer '' @ token), (''Content-Type'', ''application/json'')]\<rparr>"

text \<open>
  The value of \<^verbatim>\<open>error_msg\<close> after the \<^verbatim>\<open>try\<close> block of the 4xx branch: the
  provider's \<^verbatim>\<open>error.message\<close> when the body is a JSON object that has one (any
  exception on the way is swallowed), else the raw text.
\<close>

definition error_message :: "response \<Rightarrow> pyval" where
  "error_message r =
     (case json_body r of
        Some (PDict error_data) \<Rightarrow>
          (case (case map_of error_data ''error'' of None \<Rightarrow> PDict [] | Some e \<Rightarrow> e) of
             PDict e \<Rightarrow> (case map_of e ''message'' of None \<Rightarrow> PStr (body_text r) | Some m \<Rightarrow> m)
           | _ \<Rightarrow> PStr (body_text r))
      | _ \<Rightarrow> PStr (body_text r))"

text \<open>
  \<^verbatim>\<open>client.request(method=method, url=url, headers=self.headers, json=data,
  params=params)\<close>: the call as the world records it.
\<close>

definition request_of :: "client \<Rightarrow> string \<Rightarrow> string \<Rightarrow> pyval option \<Rightarrow> pyval option \<Rightarrow> request" where
  "request_of c method url data params =
     \<lparr>rq_method = method, rq_url = url, rq_headers = headers c, rq_json = data, rq_params = params\<rparr>"

text \<open>
  \<^verbatim>\<open>_make_request\<close>. The exceptions the body raises itself are not
  \<^verbatim>\<open>httpx\<close> exceptions, so the \<^verbatim>\<open>except\<close> clause lets them through.
\<close>

function make_request ::
  "client \<Rightarrow> server \<Rightarrow> string \<Rightarrow> string \<Rightarrow> pyval option \<Rightarrow> pyval option \<Rightarrow> nat \<Rightarrow> world
     \<Rightarrow> (error + pyval) \<times> world" where
  "make_request c srv method endpoint data params retry_count w =
     (let url = BASE_URL @ endpoint;
          w1 = w\<lparr>requests := requests w @ [request_of c method url data params]\<rparr>
      in case srv (length (requests w)) of
           Response response \<Rightarrow>
             if status_code response = 401 then
               (Inl (TokenExpiredError ''Access token expired or invalid''), w1)
             else if status_code response = 429 then
               (case resp_headers response ''Retry-After'' of
                  None \<Rightarrow>
                    (Inl (RateLimitError (''Rate limit exceeded. Retry after '' @ str_int 60
                            @ '' seconds'')), w1)
                | Some s \<Rightarrow>
                    (case py_int s of
                       Inl e \<Rightarrow> (Inl e, w1)
                     | Inr retry_after \<Rightarrow>
                         (Inl (RateLimitError (''Rate limit exceeded. Retry after ''
                                 @ str_int retry_after @ '' seconds'')), w1)))
             else if status_code response \<ge> 500 then
               (if retry_count < MAX_RETRIES then
                  let delay = INITIAL_RETRY_DELAY * 2 ^ retry_count
                  in make_request c srv method endpoint data params (retry_count + 1)
                       (w1\<lparr>sleeps := sleeps w1 @ [delay]\<rparr>)
                else
                  (Inl (GraphAPIError (''Server error after '' @ str_int (int MAX_RETRIES)
                          @ '' retries: '' @ body_text response)), w1))
             else if status_code response \<ge> 400 then
               (Inl (GraphAPIError (''API error '' @ str_int (status_code response) @ '': ''
                       @ py_str (error_message response))), w1)
             else if status_code response = 204 then (Inr (PDict []), w1)
             else
               (case json_body response of
                  None \<Rightarrow> (Inl (JSONDecodeError (body_text response)), w1)
                | Some v \<Rightarrow> (Inr v, w1))
         | TimeoutException e \<Rightarrow>
             (if retry_count < MAX_RETRIES then
                let delay = INITIAL_RETRY_DELAY * 2 ^ retry_count
                in make_request c srv method endpoint data params (retry_count + 1)
                     (w1\<lparr>sleeps := sleeps w1 @ [delay]\<rparr>)
              else
                (Inl (GraphAPIError (''Network error after '' @ str_int (int MAX_RETRIES)
                        @ '' retries: '' @ e)), w1))
         | NetworkError e \<Rightarrow>
             (if retry_count < MAX_RETRIES then
                let delay = INITIAL_RETRY_DELAY * 2 ^ retry_count
                in make_request c srv method endpoint data params (retry_count + 1)
                     (w1\<lparr>sleeps := sleeps w1 @ [delay]\<rparr>)
              else
                (Inl (GraphAPIError (''Network error after '' @ str_int (int MAX_RETRIES)
                        @ '' retries: '' @ e)), w1))
         | OtherException e \<Rightarrow> (Inl (TransportError e), w1))"
  by pat_completeness auto
termination
  by (relation "measure (\<lambda>(c, srv, method, endpoint, data, params, retry_count, w).
                  MAX_RETRIES - retry_count)") auto

declare make_request.simps [simp del]

subsection \<open>send\_email\<close>

text \<open>\<^verbatim>\<open>[{"emailAddress": {"address": addr}} for addr in to]\<close>\<close>

definition recipients :: "string list \<Rightarrow> pyval" where
  "recipients addrs =
     PList (map (\<lambda>addr. PDict [(''emailAddress'', PDict [(''address'', PStr addr)])]) addrs)"

text \<open>
  An optional argument is \<open>None\<close> or \<open>Some\<close> value; \<^verbatim>\<open>if x:\<close> and \<^verbatim>\<open>not x\<close>
  take \<^verbatim>\<open>None\<close>, the empty string and the empty list for false.
\<close>

definition given :: "'a list option \<Rightarrow> bool" where
  "given x = (case x of None \<Rightarrow> False | Some v \<Rightarrow> v \<noteq> [])"

definition or_empty :: "'a list option \<Rightarrow> 'a list" where
  "or_empty x = (case x of None \<Rightarrow> [] | Some v \<Rightarrow> v)"

text \<open>The \<^verbatim>\<open>message\<close> dictionary of the compose-and-send branch.\<close>

definition new_message ::
  "string list \<Rightarrow> string \<Rightarrow> string \<Rightarrow> string list option \<Rightarrow> EmailImportance \<Rightarrow> string \<Rightarrow> pyval" where
  "new_message to subject body cc importance body_type =
     PDict ([(''subject'', PStr subject),
             (''importance'', PStr (importance_value importance)),
             (''body'', PDict [(''contentType'', PStr body_type), (''content'', PStr body)]),
             (''toRecipients'', recipients to)]
            @ (if given cc then [(''ccRecipients'', recipients (or_empty cc))] else []))"

text \<open>\<^verbatim>\<open>send_email\<close> returns \<^verbatim>\<open>None\<close>: the result of the request is dropped.\<close>

definition send_email ::
  "client \<Rightarrow> server \<Rightarrow> string option \<Rightarrow> string list option \<Rightarrow> string option \<Rightarrow> string option
     \<Rightarrow> string list option \<Rightarrow> EmailImportance \<Rightarrow> string \<Rightarrow> world \<Rightarrow> (error + unit) \<times> world" where
  "send_email c srv draft_id to subject body cc importance body_type w =
     (if given draft_id then
        (let endpoint = ''/me/messages/'' @ or_empty draft_id @ ''/send''
         in case make_request c srv ''POST'' endpoint None None 0 w of
              (Inl e, w') \<Rightarrow> (Inl e, w')
            | (Inr result, w') \<Rightarrow> (Inr (), w'))
      else if \<not> given to \<or> \<not> given subject \<or> \<not> given body then
        (Inl (ValueError ''to, subject, and body are required when draft_id is not provided''), w)
      else
        (let message = new_message (or_empty to) (or_empty subject) (or_empty body) cc
                         importance body_type;
             endpoint = ''/me/sendMail''
         in case make_request c srv ''POST'' endpoint (Some (PDict [(''message'', message)])) None 0 w of
              (Inl e, w') \<Rightarrow> (Inl e, w')
            | (Inr result, w') \<Rightarrow> (Inr (), w')))"

subsection \<open>search\_emails\<close>






text \<open>Stand-ins: an empty world, a client, and servers that answer from a script.\<close>

definition world0 :: world where
  "world0 = \<lparr>requests = [], sleeps = []\<rparr>"

definition resp :: "int \<Rightarrow> (string \<times> string) list \<Rightarrow> string \<Rightarrow> pyval option \<Rightarrow> outcome" where
  "resp code hdrs txt js =
     Response \<lparr>status_code = code, resp_headers = map_of hdrs, body_text = txt, json_body = js\<rparr>"



text \<open>An outcome after which \<^verbatim>\<open>_make_request\<close> tries again, while retries are left.\<close>

definition retryable :: "outcome \<Rightarrow> bool" where
  "retryable out =
     (case out of
        Response r \<Rightarrow> status_code r \<ge> 500
      | TimeoutException e \<Rightarrow> True
      | NetworkError e \<Rightarrow> True
      | OtherException e \<Rightarrow> False)"

text \<open>A client, a server that fails twice before it answers, one that always fails, and one
  that always throttles.\<close>

definition demo_client :: client where
  "demo_client = GraphClient ''tok''"



definition throttling_server :: "(string \<times> string) list \<Rightarrow> server" where
  "throttling_server hdrs = (\<lambda>i. resp 429 hdrs ''Rate limit exceeded'' None)"

text \<open>
  A server that accepts everything, and the two requests \<^verbatim>\<open>send_email\<close> can make:
  sending a draft, and composing and sending a message in one request.
\<close>

definition accepting_server :: server where
  "accepting_server = (\<lambda>i. resp 202 [] [] (Some (PDict [])))"

definition draft_request :: "client \<Rightarrow> string \<Rightarrow> request" where
  "draft_request c draft_id =
     request_of c ''POST'' (BASE_URL @ ''/me/messages/'' @ draft_id @ ''/send'') None None"

definition send_mail_request :: "client \<Rightarrow> pyval \<Rightarrow> request" where
  "send_mail_request c message =
     request_of c ''POST'' (BASE_URL @ ''/me/sendMail'') (Some (PDict [(''message'', message)])) None"







section \<open>Library contracts and test doubles\<close>

text \<open>
  What the store needs of its libraries, at the one value it handles: Fernet gives back
  the plaintext it encrypted, and never an empty token; JSON gives back the value it
  serialised.
\<close>

definition fernet_roundtrip :: "libs \<Rightarrow> nat \<Rightarrow> bytes \<Rightarrow> bool" where
  "fernet_roundtrip L iv plain \<longleftrightarrow>
     encrypt L iv plain \<noteq> [] \<and> decrypt L (encrypt L iv plain) = Some plain"

definition json_roundtrip :: "libs \<Rightarrow> pyval \<Rightarrow> bool" where
  "json_roundtrip L v \<longleftrightarrow> loads L (dumps L v) = Some v"

text \<open>A stored ciphertext is corrupted when decrypting it, or parsing its plaintext, fails.\<close>

definition corrupted :: "libs \<Rightarrow> bytes \<Rightarrow> bool" where
  "corrupted L c \<longleftrightarrow> (case decrypt L c of None \<Rightarrow> True | Some plain \<Rightarrow> loads L plain = None)"

text \<open>The dictionary \<open>T\<close> after \<^verbatim>\<open>tokens["stored_at"] = now.isoformat()\<close>.\<close>

definition stamped :: "libs \<Rightarrow> instant \<Rightarrow> pydict \<Rightarrow> pydict" where
  "stamped L now T = AList.update ''stored_at'' (PStr (isoformat L now)) T"

text \<open>
  Stand-ins for the libraries, to run the model on concrete inputs: a cipher that
  prefixes a marker byte, a JSON codec that knows two documents, and timestamps written
  as their number of microseconds.
\<close>

definition demo_tokens :: "int \<Rightarrow> pydict" where
  "demo_tokens d = [(''access_token'', PStr ''abc''), (''expires_in'', PInt d)]"

definition demo_now :: instant where
  "demo_now = 63900000000000000"

definition demo_docs :: "(pyval \<times> bytes) list" where
  "demo_docs =
     [(PDict (demo_tokens 3600 @ [(''stored_at'', PStr (str_int demo_now))]), ''doc-3600''),
      (PDict (demo_tokens 1000000000000 @ [(''stored_at'', PStr (str_int demo_now))]), ''doc-long'')]"

definition demo_libs :: libs where
  "demo_libs =
     \<lparr>encrypt = (\<lambda>iv plain. CHR ''g'' # plain),
      decrypt = (\<lambda>c. case c of [] \<Rightarrow> None | x # plain \<Rightarrow> if x = CHR ''g'' then Some plain else None),
      dumps = (\<lambda>v. case map_of demo_docs v of None \<Rightarrow> ''null'' | Some b \<Rightarrow> b),
      loads = (\<lambda>b. map_of (map (\<lambda>(v, b). (b, v)) demo_docs) b),
      isoformat = str_int,
      fromisoformat = (\<lambda>s. case py_int s of Inl e \<Rightarrow> None | Inr t \<Rightarrow> Some t)\<rparr>"

definition demo_storage :: "bytes \<Rightarrow> token_storage" where
  "demo_storage c = init_storage\<lparr>s_tokens := [''u1'' \<mapsto> c]\<rparr>"

section \<open>Properties of the credential store\<close>

lemma update_nonempty: "AList.update k v al \<noteq> []"
  by (cases al) auto

lemma get_tokens_absent: "s_tokens st u = None \<Longrightarrow> get_tokens L u st = (PNone, st)"
  by (simp add: get_tokens_def)

lemma get_after_store:
  assumes "fernet_roundtrip L iv (dumps L (PDict (stamped L now (h a))))"
    and "json_roundtrip L (PDict (stamped L now (h a)))"
  shows "get_tokens L u (snd (store_tokens L now iv u a (h, st))) =
           (PDict (stamped L now (h a)), snd (store_tokens L now iv u a (h, st)))"
  using assms
  by (simp add: get_tokens_def store_tokens_def fernet_roundtrip_def json_roundtrip_def
      stamped_def Let_def)

lemma get_tokens_corrupted:
  assumes "s_tokens st u = Some c" and "corrupted L c"
  shows "get_tokens L u st =
           (PNone, if c = [] then st else st\<lparr>s_tokens := (s_tokens st)(u := None)\<rparr>)"
  using assms by (auto simp: get_tokens_def corrupted_def split: option.splits)

text \<open>The stand-in libraries meet the contracts at the documents they know.\<close>

lemma demo_fernet: "fernet_roundtrip demo_libs iv plain"
  by (simp add: fernet_roundtrip_def demo_libs_def)

lemma demo_stamped_3600:
  "stamped demo_libs demo_now (demo_tokens 3600)
     = demo_tokens 3600 @ [(''stored_at'', PStr (str_int demo_now))]"
  by (simp add: stamped_def demo_libs_def demo_tokens_def)

lemma demo_json_3600:
  "json_roundtrip demo_libs (PDict (stamped demo_libs demo_now (demo_tokens 3600)))"
  unfolding demo_stamped_3600
  by (simp add: json_roundtrip_def demo_libs_def demo_docs_def demo_tokens_def)

lemma demo_stamped_long:
  "stamped demo_libs demo_now (demo_tokens 1000000000000)
     = demo_tokens 1000000000000 @ [(''stored_at'', PStr (str_int demo_now))]"
  by (simp add: stamped_def demo_libs_def demo_tokens_def)

lemma demo_json_long:
  "json_roundtrip demo_libs (PDict (stamped demo_libs demo_now (demo_tokens 1000000000000)))"
  unfolding demo_stamped_long
  by (simp add: json_roundtrip_def demo_libs_def demo_docs_def demo_tokens_def)

lemma demo_iso: "fromisoformat demo_libs (isoformat demo_libs demo_now) = Some demo_now"
proof -
  have "py_int (str_int 63900000000000000) = Inr 63900000000000000"
    by code_simp
  then show ?thesis by (simp add: demo_libs_def demo_now_def)
qed

subsection \<open>PKCE verifiers\<close>

text \<open>
  C3. After \<^verbatim>\<open>store_code_verifier(state, verifier)\<close> the first
  \<^verbatim>\<open>get_code_verifier(state)\<close> returns the verifier and removes the entry, a second
  one returns absent, and \<^verbatim>\<open>get_code_verifier\<close> on a state that is not stored
  returns absent.
\<close>

theorem code_verifier_single_use:
  "fst (get_code_verifier state (store_code_verifier state verifier st)) = Some verifier
   \<and> s_verifiers (snd (get_code_verifier state (store_code_verifier state verifier st))) state = None
   \<and> fst (get_code_verifier state
            (snd (get_code_verifier state (store_code_verifier state verifier st)))) = None
   \<and> (s_verifiers st state' = None \<longrightarrow> fst (get_code_verifier state' st) = None)"
  by (simp add: get_code_verifier_def store_code_verifier_def)

theorem code_verifier_single_use_witness:
  "fst (get_code_verifier ''s1'' (store_code_verifier ''s1'' ''v1'' init_storage)) = Some ''v1''
   \<and> fst (get_code_verifier ''s1''
            (snd (get_code_verifier ''s1'' (store_code_verifier ''s1'' ''v1'' init_storage)))) = None
   \<and> s_verifiers init_storage ''zz'' = None
   \<and> fst (get_code_verifier ''zz'' init_storage) = None"
  using code_verifier_single_use [of "''s1''" "''v1''" init_storage "''zz''"]
  by (simp add: init_storage_def)

subsection \<open>Storing and reading tokens\<close>

text \<open>
  C9. \<^verbatim>\<open>store_tokens\<close> writes into the dictionary it is handed: when it returns, the
  caller's own dictionary object (the one at address \<open>a\<close>) holds the key
  \<^verbatim>\<open>stored_at\<close> with the time stamp; no copy is made before stamping.
\<close>

theorem store_tokens_stamps_callers_dict:
  "fst (store_tokens L now iv user_id a (h, st)) a = stamped L now (h a)
   \<and> map_of (fst (store_tokens L now iv user_id a (h, st)) a) ''stored_at''
       = Some (PStr (isoformat L now))"
  by (simp add: store_tokens_def stamped_def Let_def update_conv')

text \<open>
  C5. Round trip: \<^verbatim>\<open>store_tokens(u, T)\<close> followed by \<^verbatim>\<open>get_tokens(u)\<close> returns
  \<open>T\<close> with the time stamp under \<^verbatim>\<open>stored_at\<close>: that key holds the stamp and
  every other key reads as in \<open>T\<close>. The libraries are assumed to give back, for this
  record, what they were given.
\<close>

theorem store_then_get_roundtrip:
  assumes "h a = T"
    and "fernet_roundtrip L iv (dumps L (PDict (stamped L now T)))"
    and "json_roundtrip L (PDict (stamped L now T))"
  shows "fst (get_tokens L u (snd (store_tokens L now iv u a (h, st)))) = PDict (stamped L now T)
     \<and> map_of (stamped L now T) ''stored_at'' = Some (PStr (isoformat L now))
     \<and> (\<forall>k. k \<noteq> ''stored_at'' \<longrightarrow> map_of (stamped L now T) k = map_of T k)"
  using assms get_after_store [of L iv now h a u st]
  by (simp add: stamped_def update_conv')

theorem store_then_get_roundtrip_witness:
  "fst (get_tokens demo_libs ''u1''
         (snd (store_tokens demo_libs demo_now 7 ''u1'' 0 (\<lambda>_. demo_tokens 3600, init_storage))))
     = PDict [(''access_token'', PStr ''abc''), (''expires_in'', PInt 3600),
              (''stored_at'', PStr ''63900000000000000'')]"
proof -
  have s: "str_int demo_now = ''63900000000000000''"
    unfolding demo_now_def by code_simp
  show ?thesis
    using store_then_get_roundtrip [of "\<lambda>_. demo_tokens 3600" 0 "demo_tokens 3600" demo_libs 7
        demo_now "''u1''" init_storage, OF refl demo_fernet demo_json_3600]
    by (simp add: demo_stamped_3600 s) (simp add: demo_tokens_def)
qed

subsection \<open>Corrupted records\<close>

text \<open>
  C6, as the claim states it, fails for an empty ciphertext: \<^verbatim>\<open>if not encrypted\<close>
  answers \<^verbatim>\<open>None\<close> before anything is decrypted, and the entry stays.
\<close>

theorem empty_ciphertext_not_evicted:
  "s_tokens (demo_storage []) ''u1'' = Some [] \<and> corrupted demo_libs []
   \<and> fst (get_tokens demo_libs ''u1'' (demo_storage [])) = PNone
   \<and> s_tokens (snd (get_tokens demo_libs ''u1'' (demo_storage []))) ''u1'' = Some []"
  by (simp add: demo_storage_def init_storage_def corrupted_def demo_libs_def get_tokens_def)

text \<open>
  C6, amended. If the ciphertext stored for a user is corrupted, \<^verbatim>\<open>get_tokens\<close>
  returns absent without raising, and so does every later \<^verbatim>\<open>get_tokens\<close> for that
  user (the state after the first call is a fixed point of the call). The entry is
  evicted when the ciphertext is not empty; an empty one is left in place.
\<close>

theorem corrupt_tokens_read_as_absent:
  assumes "s_tokens st u = Some c" and "corrupted L c"
  shows "fst (get_tokens L u st) = PNone
     \<and> (c \<noteq> [] \<longrightarrow> s_tokens (snd (get_tokens L u st)) u = None)
     \<and> (c = [] \<longrightarrow> snd (get_tokens L u st) = st)
     \<and> get_tokens L u (snd (get_tokens L u st)) = (PNone, snd (get_tokens L u st))"
proof (cases "c = []")
  case True
  with assms show ?thesis by (simp add: get_tokens_corrupted)
next
  case False
  with assms show ?thesis by (simp add: get_tokens_corrupted get_tokens_absent)
qed

theorem corrupt_tokens_read_as_absent_witness:
  "s_tokens (demo_storage ''xyz'') ''u1'' = Some ''xyz'' \<and> corrupted demo_libs ''xyz''
   \<and> fst (get_tokens demo_libs ''u1'' (demo_storage ''xyz'')) = PNone
   \<and> s_tokens (snd (get_tokens demo_libs ''u1'' (demo_storage ''xyz''))) ''u1'' = None"
proof -
  have a: "s_tokens (demo_storage ''xyz'') ''u1'' = Some ''xyz''"
    by (simp add: demo_storage_def init_storage_def)
  have b: "corrupted demo_libs ''xyz''"
    by (simp add: corrupted_def demo_libs_def)
  from corrupt_tokens_read_as_absent [OF a b] a b show ?thesis by simp
qed

subsection \<open>Expiry\<close>

lemma timedelta_in_range:
  assumes "0 \<le> t" "t \<le> datetime_max" "0 \<le> t + d * 1000000" "t + d * 1000000 \<le> datetime_max"
  shows "timedelta_seconds (PInt d) = Inr (d * 1000000)"
proof -
  from assms have "- 86399999913600 \<le> d" "d \<le> 86399999999999"
    by (simp_all add: datetime_max_def)
  then have "(- 86399999913600) div 86400 \<le> d div 86400" "d div 86400 \<le> 86399999999999 div 86400"
    by (simp_all only: zdiv_mono1 [where b = 86400, simplified])
  then have "- 999999999 \<le> d div 86400" "d div 86400 \<le> 999999999"
    by simp_all
  then show ?thesis by (simp add: timedelta_seconds_def)
qed

lemma is_token_expired_stamped:
  assumes g: "get_tokens L u st = (PDict (stamped L t T), st)"
    and e: "map_of T ''expires_in'' = Some (PInt d)"
    and iso: "fromisoformat L (isoformat L t) = Some t"
    and r: "0 \<le> t" "t \<le> datetime_max" "0 \<le> t + d * 1000000" "t + d * 1000000 \<le> datetime_max"
  shows "is_token_expired L t' u st = (Inr (t + d * 1000000 \<le> t'), st)"
proof -
  have 1: "stamped L t T \<noteq> []"
    by (simp add: stamped_def update_nonempty)
  have 2: "dict_get (PDict (stamped L t T)) ''stored_at'' (PStr '''') = Inr (PStr (isoformat L t))"
    by (simp add: dict_get_def stamped_def update_conv')
  have 3: "dict_get (PDict (stamped L t T)) ''expires_in'' (PInt 0) = Inr (PInt d)"
    using e by (simp add: dict_get_def stamped_def update_conv')
  have 4: "datetime_add t (d * 1000000) = Inr (t + d * 1000000)"
    using r by (simp add: datetime_add_def)
  show ?thesis
    by (simp add: is_token_expired_def g 1 2 3 4 iso timedelta_in_range [OF r])
qed

text \<open>
  C4, as the claim states it, fails when the expiry time is past the last
  \<^verbatim>\<open>datetime\<close>: with \<^verbatim>\<open>expires_in\<close> \<open>= 10\<^sup>1\<^sup>2\<close> seconds, and the clock still
  at the storage time, \<^verbatim>\<open>is_token_expired\<close> does not return false, it raises
  \<^verbatim>\<open>OverflowError\<close> at \<^verbatim>\<open>stored_at + timedelta(seconds=expires_in)\<close>.
\<close>

theorem far_expiry_overflows:
  "demo_now < demo_now + 1000000000000 * 1000000
   \<and> map_of (demo_tokens 1000000000000) ''expires_in'' = Some (PInt 1000000000000)
   \<and> fst (is_token_expired demo_libs demo_now ''u1''
         (snd (store_tokens demo_libs demo_now 7 ''u1'' 0
                (\<lambda>_. demo_tokens 1000000000000, init_storage))))
     = Inl (OverflowError ''date value out of range'')"
proof -
  have g: "get_tokens demo_libs ''u1''
             (snd (store_tokens demo_libs demo_now 7 ''u1'' 0
                (\<lambda>_. demo_tokens 1000000000000, init_storage)))
      = (PDict (demo_tokens 1000000000000 @ [(''stored_at'', PStr (str_int demo_now))]),
         snd (store_tokens demo_libs demo_now 7 ''u1'' 0
                (\<lambda>_. demo_tokens 1000000000000, init_storage)))"
    using get_after_store [of demo_libs 7 demo_now "\<lambda>_. demo_tokens 1000000000000" 0 "''u1''"
        init_storage, OF demo_fernet demo_json_long]
    by (simp add: demo_stamped_long)
  have i: "py_int (str_int demo_now) = Inr demo_now"
    unfolding demo_now_def by code_simp
  have td: "timedelta_seconds (PInt 1000000000000) = Inr 1000000000000000000"
    by (simp add: timedelta_seconds_def)
  have ad: "datetime_add demo_now 1000000000000000000 = Inl (OverflowError ''date value out of range'')"
    by (simp add: datetime_add_def datetime_max_def demo_now_def)
  have "is_token_expired demo_libs demo_now ''u1''
         (snd (store_tokens demo_libs demo_now 7 ''u1'' 0
                (\<lambda>_. demo_tokens 1000000000000, init_storage)))
      = (Inl (OverflowError ''date value out of range''),
         snd (store_tokens demo_libs demo_now 7 ''u1'' 0
                (\<lambda>_. demo_tokens 1000000000000, init_storage)))"
    unfolding is_token_expired_def g
    by (simp add: dict_get_def demo_tokens_def demo_libs_def i td ad)
  then show ?thesis by (simp add: demo_tokens_def)
qed

text \<open>
  C4, amended. For a record stored by \<^verbatim>\<open>store_tokens\<close> at time \<open>t\<close> with
  \<^verbatim>\<open>expires_in\<close> \<open>= d\<close> seconds, whenever \<open>t\<close> and \<open>t + d\<close> are both times a
  \<^verbatim>\<open>datetime\<close> can hold, \<^verbatim>\<open>is_token_expired\<close> evaluated when the clock reads
  \<open>t'\<close> returns false for \<open>t' < t + d\<close> and true for \<open>t' \<ge> t + d\<close>; when the user has
  no record it returns true. The expiry is computed from the stamp written at storage
  time and from the clock, not from an argument of the caller. (Times in microseconds.)
\<close>

theorem token_expiry_after_store:
  "(h a = T \<and> map_of T ''expires_in'' = Some (PInt d)
      \<and> fernet_roundtrip L iv (dumps L (PDict (stamped L t T)))
      \<and> json_roundtrip L (PDict (stamped L t T))
      \<and> fromisoformat L (isoformat L t) = Some t
      \<and> 0 \<le> t \<and> t \<le> datetime_max \<and> 0 \<le> t + d * 1000000 \<and> t + d * 1000000 \<le> datetime_max
    \<longrightarrow> fst (is_token_expired L t' u (snd (store_tokens L t iv u a (h, st))))
          = Inr (t + d * 1000000 \<le> t'))
   \<and> (s_tokens st u = None \<longrightarrow> fst (is_token_expired L t' u st) = Inr True)"
proof (intro conjI impI)
  assume "s_tokens st u = None"
  then show "fst (is_token_expired L t' u st) = Inr True"
    by (simp add: is_token_expired_def get_tokens_absent)
next
  assume A: "h a = T \<and> map_of T ''expires_in'' = Some (PInt d)
      \<and> fernet_roundtrip L iv (dumps L (PDict (stamped L t T)))
      \<and> json_roundtrip L (PDict (stamped L t T))
      \<and> fromisoformat L (isoformat L t) = Some t
      \<and> 0 \<le> t \<and> t \<le> datetime_max \<and> 0 \<le> t + d * 1000000 \<and> t + d * 1000000 \<le> datetime_max"
  then have "get_tokens L u (snd (store_tokens L t iv u a (h, st))) =
           (PDict (stamped L t T), snd (store_tokens L t iv u a (h, st)))"
    using get_after_store [of L iv t h a u st] by simp
  with A show "fst (is_token_expired L t' u (snd (store_tokens L t iv u a (h, st))))
          = Inr (t + d * 1000000 \<le> t')"
    by (simp add: is_token_expired_stamped)
qed

theorem token_expiry_after_store_witness:
  "fst (is_token_expired demo_libs (demo_now + 3599999999) ''u1''
         (snd (store_tokens demo_libs demo_now 7 ''u1'' 0 (\<lambda>_. demo_tokens 3600, init_storage))))
     = Inr False
   \<and> fst (is_token_expired demo_libs (demo_now + 3600000000) ''u1''
         (snd (store_tokens demo_libs demo_now 7 ''u1'' 0 (\<lambda>_. demo_tokens 3600, init_storage))))
     = Inr True
   \<and> fst (is_token_expired demo_libs demo_now ''u1'' init_storage) = Inr True"
proof -
  have e: "map_of (demo_tokens 3600) ''expires_in'' = Some (PInt 3600)"
    by (simp add: demo_tokens_def)
  have r: "0 \<le> demo_now" "demo_now \<le> datetime_max" "0 \<le> demo_now + 3600 * 1000000"
    "demo_now + 3600 * 1000000 \<le> datetime_max"
    by (simp_all add: demo_now_def datetime_max_def)
  have n: "s_tokens init_storage ''u1'' = None"
    by (simp add: init_storage_def)
  note T = token_expiry_after_store [of "\<lambda>_. demo_tokens 3600" 0 "demo_tokens 3600" 3600
      demo_libs 7 demo_now _ "''u1''" init_storage]
  from T [of "demo_now + 3599999999"] T [of "demo_now + 3600000000"] T [of demo_now]
  show ?thesis
    using e r n demo_fernet demo_json_3600 demo_iso by simp
qed

section \<open>Properties of the request executor\<close>



lemma str_int_60: "str_int 60 = ''60''"
  by code_simp




lemma make_request_401:
  assumes "srv (length (requests w)) = Response r" and "status_code r = 401"
  shows "make_request c srv m e d p rc w =
           (Inl (TokenExpiredError ''Access token expired or invalid''),
            w\<lparr>requests := requests w @ [request_of c m (BASE_URL @ e) d p]\<rparr>)"
  using assms by (subst make_request.simps) (simp add: Let_def)

lemma make_request_429:
  assumes "srv (length (requests w)) = Response r" and "status_code r = 429"
  shows "make_request c srv m e d p rc w =
           (case resp_headers r ''Retry-After'' of
              None \<Rightarrow> Inl (RateLimitError ''Rate limit exceeded. Retry after 60 seconds'')
            | Some s \<Rightarrow>
                (case py_int s of
                   Inl err \<Rightarrow> Inl err
                 | Inr n \<Rightarrow> Inl (RateLimitError (''Rate limit exceeded. Retry after '' @ str_int n
                                     @ '' seconds''))),
            w\<lparr>requests := requests w @ [request_of c m (BASE_URL @ e) d p]\<rparr>)"
  using assms
  by (subst make_request.simps) (simp add: Let_def str_int_60 split: option.splits sum.splits)


lemma make_request_again:
  assumes "retryable (srv (length (requests w)))" and "rc < MAX_RETRIES"
  shows "make_request c srv m e d p rc w =
           make_request c srv m e d p (Suc rc)
             (w\<lparr>requests := requests w @ [request_of c m (BASE_URL @ e) d p],
                sleeps := sleeps w @ [INITIAL_RETRY_DELAY * 2 ^ rc]\<rparr>)"
  using assms
  by (subst make_request.simps) (auto simp: retryable_def Let_def split: outcome.splits)

lemma make_request_once:
  assumes "\<not> retryable (srv (length (requests w))) \<or> \<not> rc < MAX_RETRIES"
  shows "snd (make_request c srv m e d p rc w) =
           w\<lparr>requests := requests w @ [request_of c m (BASE_URL @ e) d p]\<rparr>"
  using assms
  by (subst make_request.simps)
    (auto simp: retryable_def Let_def split: outcome.splits option.splits sum.splits)

lemma make_request_requests:
  assumes "rc \<le> MAX_RETRIES"
  shows "\<exists>n. 1 \<le> n \<and> n \<le> MAX_RETRIES + 1 - rc
       \<and> requests (snd (make_request c srv m e d p rc w))
           = requests w @ replicate n (request_of c m (BASE_URL @ e) d p)"
  using assms
proof (induction k \<equiv> "MAX_RETRIES - rc" arbitrary: rc w)
  case 0
  then have "\<not> rc < MAX_RETRIES" by simp
  then have "requests (snd (make_request c srv m e d p rc w))
               = requests w @ replicate 1 (request_of c m (BASE_URL @ e) d p)"
    by (simp add: make_request_once)
  with "0.prems" show ?case by (intro exI [where x = 1]) simp
next
  case (Suc k)
  let ?rq = "request_of c m (BASE_URL @ e) d p"
  from Suc.hyps(2) have rc: "rc < MAX_RETRIES" by simp
  show ?case
  proof (cases "retryable (srv (length (requests w)))")
    case False
    then have "requests (snd (make_request c srv m e d p rc w)) = requests w @ replicate 1 ?rq"
      by (simp add: make_request_once)
    with rc show ?thesis by (intro exI [where x = 1]) simp
  next
    case True
    let ?w1 = "w\<lparr>requests := requests w @ [?rq],
                  sleeps := sleeps w @ [INITIAL_RETRY_DELAY * 2 ^ rc]\<rparr>"
    from Suc.hyps(2) have "k = MAX_RETRIES - Suc rc" and "Suc rc \<le> MAX_RETRIES" by simp_all
    from Suc.hyps(1) [OF this, of ?w1]
    obtain n where n: "1 \<le> n" "n \<le> MAX_RETRIES + 1 - Suc rc"
      and rq: "requests (snd (make_request c srv m e d p (Suc rc) ?w1))
                 = requests ?w1 @ replicate n ?rq"
      by blast
    from True rc have "make_request c srv m e d p rc w = make_request c srv m e d p (Suc rc) ?w1"
      by (rule make_request_again)
    with rq have "requests (snd (make_request c srv m e d p rc w))
                    = requests w @ replicate (Suc n) ?rq"
      by simp
    with n rc show ?thesis by (intro exI [where x = "Suc n"]) simp
  qed
qed

lemma snd_drop_result:
  "snd (case x of (Inl e, w') \<Rightarrow> (Inl e, w') | (Inr r, w') \<Rightarrow> (Inr (f r), w')) = snd x"
  by (cases x) (auto split: sum.splits)


text \<open>
  C10. When a 429 response carries no \<^verbatim>\<open>Retry-After\<close> header, the
  \<^verbatim>\<open>RateLimitError\<close> raised reports the default of 60 seconds (and the call made one
  attempt).
\<close>

theorem rate_limit_default_retry_after:
  assumes "srv (length (requests w)) = Response r" and "status_code r = 429"
    and "resp_headers r ''Retry-After'' = None"
  shows "make_request c srv m e d p rc w =
           (Inl (RateLimitError ''Rate limit exceeded. Retry after 60 seconds''),
            w\<lparr>requests := requests w @ [request_of c m (BASE_URL @ e) d p]\<rparr>)"
  using assms by (simp add: make_request_429)

theorem rate_limit_default_retry_after_witness:
  "make_request demo_client (throttling_server []) ''GET'' ''/me/messages/test_id'' None None 0 world0 =
     (Inl (RateLimitError ''Rate limit exceeded. Retry after 60 seconds''),
      \<lparr>requests = [request_of demo_client ''GET'' (BASE_URL @ ''/me/messages/test_id'') None None],
       sleeps = []\<rparr>)"
  using rate_limit_default_retry_after [where srv = "throttling_server []" and w = world0
      and r = "\<lparr>status_code = 429, resp_headers = map_of [], body_text = ''Rate limit exceeded'',
                 json_body = None\<rparr>"
      and c = demo_client and m = "''GET''" and e = "''/me/messages/test_id''"
      and d = None and p = None and rc = 0]
  by (simp add: throttling_server_def resp_def world0_def)

text \<open>
  What does hold of a 401 and of a 429: a 401 raises \<^verbatim>\<open>TokenExpiredError\<close> after one
  attempt; a 429 whose \<^verbatim>\<open>Retry-After\<close> reads as an integer raises
  \<^verbatim>\<open>RateLimitError\<close> with that number in its message; and no 429 is retried.
\<close>

lemma no_retry_on_401_429:
  assumes "srv (length (requests w)) = Response r"
  shows "status_code r = 401 \<longrightarrow>
           make_request c srv m e d p 0 w =
             (Inl (TokenExpiredError ''Access token expired or invalid''),
              w\<lparr>requests := requests w @ [request_of c m (BASE_URL @ e) d p]\<rparr>)"
    and "status_code r = 429 \<and> resp_headers r ''Retry-After'' = Some s \<and> py_int s = Inr n \<longrightarrow>
           make_request c srv m e d p 0 w =
             (Inl (RateLimitError (''Rate limit exceeded. Retry after '' @ str_int n @ '' seconds'')),
              w\<lparr>requests := requests w @ [request_of c m (BASE_URL @ e) d p]\<rparr>)"
    and "status_code r = 429 \<longrightarrow>
           snd (make_request c srv m e d p 0 w) =
              w\<lparr>requests := requests w @ [request_of c m (BASE_URL @ e) d p]\<rparr>"
  using assms by (simp_all add: make_request_401 make_request_429)

text \<open>
  C2 asks that every 429 fail with \<^verbatim>\<open>RateLimitError\<close>. A 429 whose
  \<^verbatim>\<open>Retry-After\<close> is an HTTP date, not a number of seconds, fails with the
  \<^verbatim>\<open>ValueError\<close> of \<^verbatim>\<open>int()\<close> instead (still after one attempt).
\<close>

theorem rate_limit_http_date_raises_value_error:
  "make_request demo_client (throttling_server [(''Retry-After'', ''Wed, 21 Oct 2015 07:28:00 GMT'')])
       ''GET'' ''/me/messages/test_id'' None None 0 world0 =
     (Inl (ValueError (''invalid literal for int() with base 10: '' @ [CHR 0x27]
             @ ''Wed, 21 Oct 2015 07:28:00 GMT'' @ [CHR 0x27])),
      \<lparr>requests = [request_of demo_client ''GET'' (BASE_URL @ ''/me/messages/test_id'') None None],
       sleeps = []\<rparr>)"
proof -
  have p: "py_int ''Wed, 21 Oct 2015 07:28:00 GMT''
             = Inl (ValueError (''invalid literal for int() with base 10: '' @ [CHR 0x27]
                      @ ''Wed, 21 Oct 2015 07:28:00 GMT'' @ [CHR 0x27]))"
    by code_simp
  show ?thesis
    using make_request_429 [where srv = "throttling_server [(''Retry-After'', ''Wed, 21 Oct 2015 07:28:00 GMT'')]"
      and w = world0
      and r = "\<lparr>status_code = 429,
                 resp_headers = map_of [(''Retry-After'', ''Wed, 21 Oct 2015 07:28:00 GMT'')],
                 body_text = ''Rate limit exceeded'', json_body = None\<rparr>"
      and c = demo_client and m = "''GET''" and e = "''/me/messages/test_id''"
      and d = None and p = None and rc = 0]
    by (simp add: throttling_server_def resp_def world0_def p)
qed

lemma make_request_first_try:
  "\<exists>n. 1 \<le> n \<and> n \<le> 4 \<and> (\<not> retryable (srv (length (requests w))) \<longrightarrow> n = 1)
       \<and> requests (snd (make_request c srv m e d p 0 w))
           = requests w @ replicate n (request_of c m (BASE_URL @ e) d p)"
proof (cases "retryable (srv (length (requests w)))")
  case True
  with make_request_requests [of 0 c srv m e d p w] show ?thesis
    by (auto simp: MAX_RETRIES_def)
next
  case False
  then have "requests (snd (make_request c srv m e d p 0 w))
               = requests w @ replicate 1 (request_of c m (BASE_URL @ e) d p)"
    by (simp add: make_request_once)
  then show ?thesis by (intro exI [where x = 1]) simp
qed

section \<open>Properties of the operations\<close>

text \<open>
  C7, amended. If a non-empty draft identifier is supplied, \<^verbatim>\<open>send_email\<close> sends
  that draft (a POST to the draft's send endpoint, with no body) and ignores every other
  field. Otherwise, if any of \<^verbatim>\<open>to\<close>, \<^verbatim>\<open>subject\<close>, \<^verbatim>\<open>body\<close> is absent
  or empty, it raises the validation error before any network call (the world is
  unchanged). When all three are present and non-empty it makes one compose-and-send
  request with the message under the key \<^verbatim>\<open>message\<close>: every attempt carries that
  same request, there are at most four, and exactly one unless the first outcome is
  retried.
\<close>

theorem send_email_cases:
  "(given draft_id \<longrightarrow>
      (\<exists>n. 1 \<le> n \<and> n \<le> 4 \<and> (\<not> retryable (srv (length (requests w))) \<longrightarrow> n = 1)
         \<and> requests (snd (send_email c srv draft_id to subject body cc importance body_type w))
             = requests w @ replicate n (draft_request c (or_empty draft_id)))
      \<and> send_email c srv draft_id to subject body cc importance body_type w
          = send_email c srv draft_id to2 subject2 body2 cc2 importance2 body_type2 w)
   \<and> (\<not> given draft_id \<and> (\<not> given to \<or> \<not> given subject \<or> \<not> given body) \<longrightarrow>
        send_email c srv draft_id to subject body cc importance body_type w
          = (Inl (ValueError ''to, subject, and body are required when draft_id is not provided''), w))
   \<and> (\<not> given draft_id \<and> given to \<and> given subject \<and> given body \<longrightarrow>
        (\<exists>n. 1 \<le> n \<and> n \<le> 4 \<and> (\<not> retryable (srv (length (requests w))) \<longrightarrow> n = 1)
           \<and> requests (snd (send_email c srv draft_id to subject body cc importance body_type w))
               = requests w @ replicate n
                   (send_mail_request c
                      (new_message (or_empty to) (or_empty subject) (or_empty body) cc
                         importance body_type))))"
proof (intro conjI impI)
  assume "given draft_id"
  then show "\<exists>n. 1 \<le> n \<and> n \<le> 4 \<and> (\<not> retryable (srv (length (requests w))) \<longrightarrow> n = 1)
         \<and> requests (snd (send_email c srv draft_id to subject body cc importance body_type w))
             = requests w @ replicate n (draft_request c (or_empty draft_id))"
    using make_request_first_try [where c = c and srv = srv and m = "''POST''"
        and e = "''/me/messages/'' @ or_empty draft_id @ ''/send''" and d = None and p = None
        and w = w]
    by (simp add: send_email_def draft_request_def snd_drop_result)
next
  assume "given draft_id"
  then show "send_email c srv draft_id to subject body cc importance body_type w
          = send_email c srv draft_id to2 subject2 body2 cc2 importance2 body_type2 w"
    by (simp add: send_email_def)
next
  assume "\<not> given draft_id \<and> (\<not> given to \<or> \<not> given subject \<or> \<not> given body)"
  then show "send_email c srv draft_id to subject body cc importance body_type w
          = (Inl (ValueError ''to, subject, and body are required when draft_id is not provided''), w)"
    by (auto simp: send_email_def)
next
  assume "\<not> given draft_id \<and> given to \<and> given subject \<and> given body"
  then show "\<exists>n. 1 \<le> n \<and> n \<le> 4 \<and> (\<not> retryable (srv (length (requests w))) \<longrightarrow> n = 1)
           \<and> requests (snd (send_email c srv draft_id to subject body cc importance body_type w))
               = requests w @ replicate n
                   (send_mail_request c
                      (new_message (or_empty to) (or_empty subject) (or_empty body) cc
                         importance body_type))"
    using make_request_first_try [where c = c and srv = srv and m = "''POST''"
        and e = "''/me/sendMail''"
        and d = "Some (PDict [(''message'', new_message (or_empty to) (or_empty subject)
                         (or_empty body) cc importance body_type)])"
        and p = None and w = w]
    by (simp add: send_email_def send_mail_request_def snd_drop_result Let_def)
qed

text \<open>
  C7, as the claim states it, fails when a field is present but empty: with \<^verbatim>\<open>to\<close>,
  an empty \<^verbatim>\<open>subject\<close> and a \<^verbatim>\<open>body\<close> all supplied,
  \<^verbatim>\<open>send_email\<close> raises the validation error and makes no request.
\<close>

theorem empty_subject_is_refused:
  "send_email demo_client accepting_server None (Some [''test@example.com'']) (Some '''')
       (Some ''Body'') None NORMAL ''HTML'' world0
     = (Inl (ValueError ''to, subject, and body are required when draft_id is not provided''), world0)"
  by (simp add: send_email_def given_def)

theorem send_email_cases_witness:
  "(\<exists>n. 1 \<le> n \<and> n \<le> 4 \<and> n = 1
      \<and> requests (snd (send_email demo_client accepting_server (Some ''AAMkAGI2'') None None None
                          None NORMAL ''HTML'' world0))
          = replicate n (draft_request demo_client ''AAMkAGI2''))
   \<and> send_email demo_client accepting_server None (Some [''test@example.com'']) None None
        None NORMAL ''HTML'' world0
       = (Inl (ValueError ''to, subject, and body are required when draft_id is not provided''), world0)
   \<and> (\<exists>n. 1 \<le> n \<and> n \<le> 4 \<and> n = 1
      \<and> requests (snd (send_email demo_client accepting_server None (Some [''test@example.com''])
                          (Some ''Test'') (Some ''Body'') None NORMAL ''HTML'' world0))
          = replicate n
              (send_mail_request demo_client
                 (PDict [(''subject'', PStr ''Test''), (''importance'', PStr ''normal''),
                         (''body'', PDict [(''contentType'', PStr ''HTML''), (''content'', PStr ''Body'')]),
                         (''toRecipients'',
                            PList [PDict [(''emailAddress'', PDict [(''address'', PStr ''test@example.com'')])]])])))"
proof -
  have nr: "\<not> retryable (accepting_server (length (requests world0)))"
    by (simp add: accepting_server_def resp_def retryable_def)
  have msg: "new_message (or_empty (Some [''test@example.com''])) (or_empty (Some ''Test''))
               (or_empty (Some ''Body'')) None NORMAL ''HTML''
             = PDict [(''subject'', PStr ''Test''), (''importance'', PStr ''normal''),
                      (''body'', PDict [(''contentType'', PStr ''HTML''), (''content'', PStr ''Body'')]),
                      (''toRecipients'',
                         PList [PDict [(''emailAddress'', PDict [(''address'', PStr ''test@example.com'')])]])]"
    by (simp add: new_message_def or_empty_def given_def recipients_def)
  from send_email_cases [where c = demo_client and srv = accepting_server
      and draft_id = "Some ''AAMkAGI2''" and to = None and subject = None and body = None
      and cc = None and importance = NORMAL and body_type = "''HTML''" and w = world0]
  have a: "\<exists>n. 1 \<le> n \<and> n \<le> 4 \<and> n = 1
      \<and> requests (snd (send_email demo_client accepting_server (Some ''AAMkAGI2'') None None None
                          None NORMAL ''HTML'' world0))
          = replicate n (draft_request demo_client ''AAMkAGI2'')"
    using nr by (simp add: given_def or_empty_def world0_def)
  from send_email_cases [where c = demo_client and srv = accepting_server
      and draft_id = None and to = "Some [''test@example.com'']" and subject = None and body = None
      and cc = None and importance = NORMAL and body_type = "''HTML''" and w = world0]
  have b: "send_email demo_client accepting_server None (Some [''test@example.com'']) None None
        None NORMAL ''HTML'' world0
       = (Inl (ValueError ''to, subject, and body are required when draft_id is not provided''), world0)"
    by (simp add: given_def)
  from send_email_cases [where c = demo_client and srv = accepting_server
      and draft_id = None and to = "Some [''test@example.com'']" and subject = "Some ''Test''"
      and body = "Some ''Body''"
      and cc = None and importance = NORMAL and body_type = "''HTML''" and w = world0]
  have c: "\<exists>n. 1 \<le> n \<and> n \<le> 4 \<and> n = 1
      \<and> requests (snd (send_email demo_client accepting_server None (Some [''test@example.com''])
                          (Some ''Test'') (Some ''Body'') None NORMAL ''HTML'' world0))
          = replicate n
              (send_mail_request demo_client
                 (new_message (or_empty (Some [''test@example.com''])) (or_empty (Some ''Test''))
               (or_empty (Some ''Body'')) None NORMAL ''HTML''))"
    using nr by (simp add: given_def world0_def)
  from a b c show ?thesis by (simp only: msg) 
qed











end
